theory Spec2Isabelle
  imports Complex_Main
begin

section \<open>Category\<close>

text \<open>
  \<^verbatim>\<open>class Category(IntEnum)\<close> of \<^verbatim>\<open>area.py\<close>: the closed set of land
  types, with the integer each member stands for.
\<close>

datatype Category =
    UNDEFINED | LAND | FIELD | FOREST | RIVER | LAKE | SEA | PARK | GARDEN
  | HOUSE | MANSION | MARKET | TOWNHALL | UNIVERSITY | FARM
  | CHURCH | CATHEDRAL | MONASTRY
  | FORT | CASTLE | WALL | DOOR
  | STREET | BRIDGE | ROAD
  | COMPOSITE

fun Category_value :: "Category \<Rightarrow> int" where
  "Category_value UNDEFINED = 0"
| "Category_value LAND = 1"
| "Category_value FIELD = 2"
| "Category_value FOREST = 3"
| "Category_value RIVER = 4"
| "Category_value LAKE = 5"
| "Category_value SEA = 6"
| "Category_value PARK = 7"
| "Category_value GARDEN = 8"
| "Category_value HOUSE = 10"
| "Category_value MANSION = 11"
| "Category_value MARKET = 12"
| "Category_value TOWNHALL = 13"
| "Category_value UNIVERSITY = 14"
| "Category_value FARM = 15"
| "Category_value CHURCH = 20"
| "Category_value CATHEDRAL = 21"
| "Category_value MONASTRY = 22"
| "Category_value FORT = 31"
| "Category_value CASTLE = 32"
| "Category_value WALL = 33"
| "Category_value DOOR = 34"
| "Category_value STREET = 50"
| "Category_value BRIDGE = 51"
| "Category_value ROAD = 52"
| "Category_value COMPOSITE = 90"

section \<open>Exceptions, objects and the store\<close>

text \<open>
  The exceptions the module can raise. \<open>AssertionError\<close> is what the
  \<^verbatim>\<open>assert\<close> of \<^verbatim>\<open>split\<close> raises; \<open>AttributeError\<close> is what assigning to a
  property without a setter raises; \<open>IndexError\<close> is an index out of range;
  \<open>TypeError\<close> is arithmetic on \<^verbatim>\<open>None\<close>.
\<close>

datatype exn = AssertionError | AttributeError | IndexError | TypeError | ValueError

text \<open>
  Areas and Python lists are objects with an identity: two names can denote the
  same list. Both live in a store and are referred to by their position in it. An
  object is allocated by appending to the store, so a new reference is always
  different from every older one; nothing is ever deallocated (\<^verbatim>\<open>Area.members\<close>
  keeps every Area alive, so \<^verbatim>\<open>__del__\<close> does not run while the process works).
  Polygons are immutable values of the geometry library, type \<open>'p\<close>.
\<close>

type_synonym ref = nat

record 'p Area =
  Area_polygon :: 'p
  Area_category :: Category
  Area_sub_areas :: ref
  Area_id :: int

text \<open>
  The fields are \<^verbatim>\<open>_polygon\<close>, \<^verbatim>\<open>_category\<close>, \<^verbatim>\<open>_sub_areas\<close> (a reference to
  a list object) and \<^verbatim>\<open>_id\<close>. The store also holds the two class attributes
  \<^verbatim>\<open>Area._last_id\<close> and \<^verbatim>\<open>Area.members\<close>.
\<close>

record 'p store =
  last_id :: int
  members :: "ref list"
  areas :: "'p Area list"
  list_objects :: "ref list list"

definition Area_class :: "'p store" where
  \<comment> \<open>the process when the class has just been defined: \<^verbatim>\<open>_last_id = 0\<close>, \<^verbatim>\<open>members = []\<close>\<close>
  "Area_class = \<lparr>last_id = 0, members = [], areas = [], list_objects = []\<rparr>"

definition new_list :: "ref list \<Rightarrow> 'p store \<Rightarrow> ref \<times> 'p store" where
  \<comment> \<open>a list display \<^verbatim>\<open>[...]\<close>: a new list object\<close>
  "new_list xs s = (length (list_objects s), s\<lparr>list_objects := list_objects s @ [xs]\<rparr>)"

definition get_id :: "'p store \<Rightarrow> int \<times> 'p store" where
  "get_id s = (let s' = s\<lparr>last_id := last_id s + 1\<rparr> in (last_id s', s'))"

definition Area_init :: "'p \<Rightarrow> Category \<Rightarrow> ref option \<Rightarrow> 'p store \<Rightarrow> ref \<times> 'p store" where
  \<comment> \<open>\<^verbatim>\<open>Area(polygon, category, sub_areas=None)\<close>; returns the new object\<close>
  "Area_init polygon category sub_areas s =
     (let (sub_areas', s1) = (case sub_areas of None \<Rightarrow> new_list [] s | Some l \<Rightarrow> (l, s));
          (i, s2) = get_id s1;
          self = length (areas s2);
          s3 = s2\<lparr>areas := areas s2 @
                 [\<lparr>Area_polygon = polygon, Area_category = category,
                   Area_sub_areas = sub_areas', Area_id = i\<rparr>]\<rparr>
      in (self, s3\<lparr>members := members s3 @ [self]\<rparr>))"

text \<open>The read-only properties, and the content of the list \<^verbatim>\<open>_sub_areas\<close> refers to.\<close>

definition identity :: "'p store \<Rightarrow> ref \<Rightarrow> int" where
  "identity s self = Area_id (areas s ! self)"

definition polygon :: "'p store \<Rightarrow> ref \<Rightarrow> 'p" where
  "polygon s self = Area_polygon (areas s ! self)"

definition category :: "'p store \<Rightarrow> ref \<Rightarrow> Category" where
  "category s self = Area_category (areas s ! self)"

definition sub_areas :: "'p store \<Rightarrow> ref \<Rightarrow> ref list" where
  "sub_areas s self = list_objects s ! Area_sub_areas (areas s ! self)"

definition polygon_set :: "ref \<Rightarrow> 'p \<Rightarrow> 'p store \<Rightarrow> (exn + unit) \<times> 'p store" where
  \<comment> \<open>\<^verbatim>\<open>self.polygon = value\<close>: \<^verbatim>\<open>polygon\<close> is a property with a getter only\<close>
  "polygon_set self v s = (Inl AttributeError, s)"

definition components :: "ref \<Rightarrow> 'p store \<Rightarrow> ref \<times> 'p store" where
  \<comment> \<open>returns a list object: the one \<^verbatim>\<open>_sub_areas\<close> refers to, or a new \<^verbatim>\<open>[self]\<close>\<close>
  "components self s =
     (if length (sub_areas s self) > 0 then (Area_sub_areas (areas s ! self), s)
      else new_list [self] s)"

fun constructions :: "('p \<times> Category \<times> ref option) list \<Rightarrow> 'p store \<Rightarrow> ref list \<times> 'p store" where
  \<comment> \<open>a sequence of constructor calls, one after the other; the objects in the order made\<close>
  "constructions [] s = ([], s)"
| "constructions ((p, c, l) # cs) s =
     (let (a, s1) = Area_init p c l s; (as, s2) = constructions cs s1 in (a # as, s2))"

section \<open>The geometry library\<close>

text \<open>
  \<^verbatim>\<open>split\<close> computes with \<^verbatim>\<open>shapely\<close> and \<^verbatim>\<open>numpy\<close>. Coordinates and areas are
  floats there and real numbers here, so rounding, infinities and NaN are outside
  the model. A numpy 2-vector is a pair of reals. The operations of shapely that
  \<^verbatim>\<open>split\<close> calls are a parameter of the model: a record of functions over the
  library's polygons \<open>'p\<close> and over the geometries \<open>'g\<close> an intersection can yield.
  \<^verbatim>\<open>list(g)\<close> is the one library call whose exception \<^verbatim>\<open>split\<close> handles, so its
  outcome is a value: the list of parts, or the exception raised.
\<close>

type_synonym pt = "real \<times> real"

datatype 'g listing = Listed "'g list" | Raised exn

record ('p, 'g) shapely =
  is_ccw :: "'p \<Rightarrow> bool"                          \<comment> \<open>\<^verbatim>\<open>p.exterior.is_ccw\<close>\<close>
  exterior_coords :: "'p \<Rightarrow> pt list"              \<comment> \<open>\<^verbatim>\<open>list(p.exterior.coords)\<close>\<close>
  Polygon :: "pt list \<Rightarrow> 'p"                      \<comment> \<open>\<^verbatim>\<open>Polygon(coords)\<close>\<close>
  minimum_rotated_rectangle :: "'p \<Rightarrow> pt list"    \<comment> \<open>\<^verbatim>\<open>p.minimum_rotated_rectangle.exterior.coords\<close>\<close>
  centroid :: "'p \<Rightarrow> pt"                          \<comment> \<open>\<^verbatim>\<open>np.array(p.centroid)\<close>\<close>
  intersection :: "pt \<Rightarrow> pt \<Rightarrow> 'p \<Rightarrow> 'g"            \<comment> \<open>\<^verbatim>\<open>LineString([a, b]).intersection(p.boundary)\<close>\<close>
  list_of :: "'g \<Rightarrow> 'g listing"                   \<comment> \<open>\<^verbatim>\<open>list(g)\<close>\<close>
  boundary_coords :: "'p \<Rightarrow> pt list"              \<comment> \<open>\<^verbatim>\<open>p.boundary.coords\<close>\<close>
  LineString_distance :: "pt \<Rightarrow> pt \<Rightarrow> 'g \<Rightarrow> real"  \<comment> \<open>\<^verbatim>\<open>LineString((a, b)).distance(g)\<close>\<close>
  area :: "'p \<Rightarrow> real"                            \<comment> \<open>\<^verbatim>\<open>p.area\<close>\<close>
  ops_split :: "'p \<Rightarrow> pt \<Rightarrow> pt \<Rightarrow> 'p list"          \<comment> \<open>\<^verbatim>\<open>ops.split(p, LineString([a, b]))\<close>\<close>
  distance :: "'g \<Rightarrow> 'p \<Rightarrow> real"                   \<comment> \<open>\<^verbatim>\<open>g.distance(p)\<close>\<close>

definition vadd :: "pt \<Rightarrow> pt \<Rightarrow> pt" where
  "vadd a b = (fst a + fst b, snd a + snd b)"

definition vsub :: "pt \<Rightarrow> pt \<Rightarrow> pt" where
  "vsub a b = (fst a - fst b, snd a - snd b)"

definition smul :: "real \<Rightarrow> pt \<Rightarrow> pt" where
  "smul k a = (k * fst a, k * snd a)"

definition vdiv :: "pt \<Rightarrow> real \<Rightarrow> pt" where
  "vdiv a k = (fst a / k, snd a / k)"

definition vnorm :: "pt \<Rightarrow> real" where
  \<comment> \<open>\<^verbatim>\<open>np.sqrt(np.sum(np.square(a)))\<close>\<close>
  "vnorm a = sqrt ((fst a)\<^sup>2 + (snd a)\<^sup>2)"

definition deg2rad :: "real \<Rightarrow> real" where
  "deg2rad x = x * pi / 180"

definition index :: "'a list \<Rightarrow> nat \<Rightarrow> exn + 'a" where
  \<comment> \<open>\<^verbatim>\<open>xs[i]\<close> for \<open>i \<ge> 0\<close>\<close>
  "index xs i = (if i < length xs then Inr (xs ! i) else Inl IndexError)"

section \<open>split\<close>

subsection \<open>Before the loop\<close>

definition orient :: "('p, 'g) shapely \<Rightarrow> ref \<Rightarrow> 'p store \<Rightarrow> (exn + unit) \<times> 'p store" where
  \<comment> \<open>lines 125 to 127\<close>
  "orient lib self s =
     (if \<not> is_ccw lib (polygon s self) then
        (let coords = exterior_coords lib (polygon s self)
         in polygon_set self (Polygon lib (rev coords)) s)
      else (Inr (), s))"

definition split_path :: "('p, 'g) shapely \<Rightarrow> 'p \<Rightarrow> real \<Rightarrow> exn + (real \<times> pt \<times> pt)" where
  \<comment> \<open>lines 128 to 135: the diameter and the two ends of \<^verbatim>\<open>path\<close>\<close>
  "split_path lib p direction =
     (let angle = deg2rad (90 - direction);
          pts = minimum_rotated_rectangle lib p
      in case index pts 2 of Inl e \<Rightarrow> Inl e | Inr c2 \<Rightarrow>
         (case index pts 0 of Inl e \<Rightarrow> Inl e | Inr c0 \<Rightarrow>
           (let d = vnorm (vsub c2 c0);
                start = centroid lib p;
                stop = vadd start (d * cos angle, d * sin angle)
            in Inr (d, start, stop))))"

definition split_pt_intersection :: "('p, 'g) shapely \<Rightarrow> 'p \<Rightarrow> pt \<Rightarrow> pt \<Rightarrow> exn + 'g" where
  \<comment> \<open>lines 136 to 141: the last part of the intersection, or the intersection
      itself when listing it raises ValueError\<close>
  "split_pt_intersection lib p start stop =
     (let g = intersection lib start stop p
      in case list_of lib g of
           Listed parts \<Rightarrow> (if parts = [] then Inl IndexError else Inr (last parts))
         | Raised e \<Rightarrow> (if e = ValueError then Inr g else Inl e))"

fun edge_loop :: "(pt \<Rightarrow> pt \<Rightarrow> bool) \<Rightarrow> (pt \<times> pt) list \<Rightarrow> (pt \<times> pt) option \<Rightarrow> (pt \<times> pt) option" where
  \<comment> \<open>the \<^verbatim>\<open>for\<close> of line 145 with its \<^verbatim>\<open>break\<close>: the loop variables when it ends\<close>
  "edge_loop near [] cur = cur"
| "edge_loop near ((a, b) # ps) cur = (if near a b then Some (a, b) else edge_loop near ps (Some (a, b)))"

definition split_edge :: "('p, 'g) shapely \<Rightarrow> 'p \<Rightarrow> 'g \<Rightarrow> (pt \<times> pt) option" where
  \<comment> \<open>lines 142 to 147; \<open>None\<close> is \<^verbatim>\<open>pt1 = pt2 = None\<close>\<close>
  "split_edge lib p g =
     (let pts = boundary_coords lib p
      in edge_loop (\<lambda>a b. LineString_distance lib a b g < 1 / 10 ^ 6)
           (zip (butlast pts) (tl pts)) None)"

record ('p, 'g) locals =
  self_polygon :: 'p
  pt_intersection :: 'g
  pt1 :: pt
  pt2 :: pt
  directory :: pt
  orth :: pt
  diameter :: real
  house_area :: real

definition split_locals :: "('p, 'g) shapely \<Rightarrow> 'p \<Rightarrow> real \<Rightarrow> real \<Rightarrow> exn + ('p, 'g) locals" where
  \<comment> \<open>lines 128 to 153: the variables the loop reads and never assigns\<close>
  "split_locals lib p percentage direction =
     (case split_path lib p direction of Inl e \<Rightarrow> Inl e | Inr (d, start, stop) \<Rightarrow>
       (case split_pt_intersection lib p start stop of Inl e \<Rightarrow> Inl e | Inr g \<Rightarrow>
         (case split_edge lib p g of None \<Rightarrow> Inl TypeError | Some (a, b) \<Rightarrow>
           (let dist = vnorm (vsub b a);
                dir = vdiv (vsub b a) dist
            in Inr \<lparr>self_polygon = p, pt_intersection = g, pt1 = a, pt2 = b,
                    directory = dir, orth = (- snd dir, fst dir),
                    diameter = d, house_area = area lib p * percentage\<rparr>))))"

subsection \<open>The loop\<close>

definition cut_line :: "('p, 'g) locals \<Rightarrow> real \<Rightarrow> pt \<times> pt" where
  \<comment> \<open>lines 160 to 163: the two ends of the cutting line\<close>
  "cut_line L width =
     (vsub (vadd (pt1 L) (smul width (orth L))) (smul (diameter L) (directory L)),
      vadd (vadd (pt2 L) (smul width (orth L))) (smul (diameter L) (directory L)))"

definition loop_body ::
  "('p, 'g) shapely \<Rightarrow> ('p, 'g) locals \<Rightarrow> 'p list \<times> real \<times> real \<Rightarrow> exn + ('p list \<times> real \<times> real)" where
  \<comment> \<open>lines 160 to 177; the state is \<^verbatim>\<open>(res, width, dw)\<close>\<close>
  "loop_body lib L st =
     (case st of (res0, width, dw0) \<Rightarrow>
       (let res = ops_split lib (self_polygon L) (fst (cut_line L width)) (snd (cut_line L width));
            dw = dw0 / 2
        in if length res = 0 then Inr (res, width - dw, dw)
           else case index res 0 of Inl e \<Rightarrow> Inl e | Inr r0 \<Rightarrow>
             (case index res 1 of Inl e \<Rightarrow> Inl e | Inr r1 \<Rightarrow>
               (let res' = (if distance lib (pt_intersection L) r0 > distance lib (pt_intersection L) r1
                            then [r1, r0] else res)
                in case index res' 0 of Inl e \<Rightarrow> Inl e | Inr first \<Rightarrow>
                     (if area lib first > house_area L then Inr (res', width - dw, dw)
                      else Inr (res', width + dw, dw))))))"

partial_function (option) while_loop ::
  "('p, 'g) shapely \<Rightarrow> ('p, 'g) locals \<Rightarrow> 'p list \<times> real \<times> real \<Rightarrow> (exn + 'p list) option" where
  \<comment> \<open>line 159; \<open>None\<close> when the loop never ends\<close>
  "while_loop lib L st =
     (case index (fst st) 0 of Inl e \<Rightarrow> Some (Inl e) | Inr first \<Rightarrow>
       (if \<bar>area lib first - house_area L\<bar> > 1 then
          (case loop_body lib L st of Inl e \<Rightarrow> Some (Inl e) | Inr st' \<Rightarrow> while_loop lib L st')
        else Some (Inr (fst st))))"

subsection \<open>After the loop, and the whole method\<close>

datatype returned = ReturnNone | ReturnPair ref ref

definition split_areas ::
  "ref \<Rightarrow> 'p list \<Rightarrow> bool \<Rightarrow> Category \<Rightarrow> 'p store \<Rightarrow> (exn + returned) \<times> 'p store" where
  \<comment> \<open>lines 178 to 183\<close>
  "split_areas self res inplace new_category s =
     (case index res 0 of Inl e \<Rightarrow> (Inl e, s) | Inr r0 \<Rightarrow>
       (let (area0, s1) = Area_init r0 (category s self) None s
        in case index res 1 of Inl e \<Rightarrow> (Inl e, s1) | Inr r1 \<Rightarrow>
          (let (area1, s2) = Area_init r1 new_category None s1
           in if inplace then
                (let (l, s3) = new_list [area0, area1] s2
                 in (Inr ReturnNone,
                     s3\<lparr>areas := (areas s3)[self := (areas s3 ! self)\<lparr>Area_sub_areas := l\<rparr>]\<rparr>))
              else (Inr (ReturnPair area0 area1), s2))))"

definition split ::
  "('p, 'g) shapely \<Rightarrow> ref \<Rightarrow> real \<Rightarrow> real \<Rightarrow> bool option \<Rightarrow> Category option \<Rightarrow> 'p store
     \<Rightarrow> ((exn + returned) \<times> 'p store) option" where
  \<comment> \<open>\<^verbatim>\<open>self.split(percentage, direction, inplace=True, new_category=Category.GARDEN)\<close>;
      an omitted argument is \<open>None\<close>; the result is \<open>None\<close> when the loop never ends\<close>
  "split lib self percentage direction inplace new_category s =
     (let inplace' = (case inplace of None \<Rightarrow> True | Some b \<Rightarrow> b);
          new_category' = (case new_category of None \<Rightarrow> GARDEN | Some c \<Rightarrow> c)
      in if \<not> percentage > 0 then Some (Inl AssertionError, s)
         else case orient lib self s of
                (Inl e, s0) \<Rightarrow> Some (Inl e, s0)
              | (Inr u, s0) \<Rightarrow>
                 (case split_locals lib (polygon s0 self) percentage direction of
                    Inl e \<Rightarrow> Some (Inl e, s0)
                  | Inr L \<Rightarrow>
                     (case while_loop lib L ([polygon s0 self], diameter L / 2, diameter L / 2) of
                        None \<Rightarrow> None
                      | Some (Inl e) \<Rightarrow> Some (Inl e, s0)
                      | Some (Inr res) \<Rightarrow> Some (split_areas self res inplace' new_category' s0))))"

section \<open>Well-formed stores\<close>

text \<open>
  In a running process every reference denotes an object: \<open>store_ok\<close> says so for
  the references the store itself holds. \<open>ids_ok\<close> is what \<^verbatim>\<open>get_id\<close> maintains:
  the Areas, in the order they were made, have increasing ids, none above
  \<^verbatim>\<open>_last_id\<close>. \<open>fragments\<close> are the two Areas a call of \<^verbatim>\<open>split\<close> produced:
  the pair it returned or, in place, the sub-areas it installed.
\<close>

definition store_ok :: "'p store \<Rightarrow> bool" where
  "store_ok s = ((\<forall>a \<in> set (members s). a < length (areas s)) \<and>
                 (\<forall>x \<in> set (areas s). Area_sub_areas x < length (list_objects s)))"

definition ids_ok :: "'p store \<Rightarrow> bool" where
  "ids_ok s = (sorted_wrt (<) (map Area_id (areas s)) \<and>
                (\<forall>i \<in> set (map Area_id (areas s)). i \<le> last_id s))"

definition fragments :: "returned \<Rightarrow> 'p store \<Rightarrow> ref \<Rightarrow> ref list" where
  "fragments r s self = (case r of ReturnPair a b \<Rightarrow> [a, b] | ReturnNone \<Rightarrow> sub_areas s self)"

section \<open>A geometry for concrete runs\<close>

text \<open>
  An instance of the library interface, computing exactly over the reals, on which
  \<^verbatim>\<open>split\<close> can be run. A polygon is its exterior ring, closed (the first point
  repeated at the end), as \<^verbatim>\<open>exterior.coords\<close> gives it. The instance is exact on
  the polygons used below: rings without holes whose convex hull is a rectangle
  with sides parallel to the axes (so that the minimum rotated rectangle is the
  bounding box), cut by a line that crosses the whole polygon and leaves one piece
  on each side, and paths that meet the boundary in isolated points. An
  intersection of several points is a \<^verbatim>\<open>MultiPoint\<close>, its points in increasing
  order of coordinates (x, then y), and listing it gives its points; a single
  \<^verbatim>\<open>Point\<close> is not iterable.
\<close>

datatype geom = Point pt | MultiPoint "pt list"

definition cross :: "pt \<Rightarrow> pt \<Rightarrow> real" where
  "cross u v = fst u * snd v - snd u * fst v"

definition dot :: "pt \<Rightarrow> pt \<Rightarrow> real" where
  "dot u v = fst u * fst v + snd u * snd v"

fun shoelace :: "pt list \<Rightarrow> real" where
  \<comment> \<open>twice the signed area of a closed ring\<close>
  "shoelace (a # b # ps) = cross a b + shoelace (b # ps)"
| "shoelace ps = 0"

fun moment :: "(pt \<Rightarrow> real) \<Rightarrow> pt list \<Rightarrow> real" where
  "moment f (a # b # ps) = (f a + f b) * cross a b + moment f (b # ps)"
| "moment f ps = 0"

definition ring_centroid :: "pt list \<Rightarrow> pt" where
  "ring_centroid r = (moment fst r / (3 * shoelace r), moment snd r / (3 * shoelace r))"

definition bounding_box :: "pt list \<Rightarrow> pt list" where
  "bounding_box r =
     (let x0 = fold min (map fst r) (fst (hd r)); x1 = fold max (map fst r) (fst (hd r));
          y0 = fold min (map snd r) (snd (hd r)); y1 = fold max (map snd r) (snd (hd r))
      in [(x0, y0), (x1, y0), (x1, y1), (x0, y1), (x0, y0)])"

definition edges :: "pt list \<Rightarrow> (pt \<times> pt) list" where
  "edges r = zip (butlast r) (tl r)"

definition seg_hit :: "pt \<Rightarrow> pt \<Rightarrow> pt \<times> pt \<Rightarrow> pt option" where
  \<comment> \<open>the point where the segments from \<open>s\<close> to \<open>e\<close> and from \<open>a\<close> to \<open>b\<close> cross\<close>
  "seg_hit s e ab =
     (let a = fst ab; b = snd ab; r = vsub e s; d = vsub b a; den = cross r d
      in if den = 0 then None
         else (let t = cross (vsub a s) d / den; u = cross (vsub a s) r / den
               in if 0 \<le> t \<and> t \<le> 1 \<and> 0 \<le> u \<and> u \<le> 1 then Some (vadd s (smul t r)) else None))"

definition lex_le :: "pt \<Rightarrow> pt \<Rightarrow> bool" where
  "lex_le p q = (fst p < fst q \<or> (fst p = fst q \<and> snd p \<le> snd q))"

fun lex_insert :: "pt \<Rightarrow> pt list \<Rightarrow> pt list" where
  "lex_insert p [] = [p]"
| "lex_insert p (q # qs) = (if lex_le p q then p # q # qs else q # lex_insert p qs)"

definition ring_intersection :: "pt \<Rightarrow> pt \<Rightarrow> pt list \<Rightarrow> geom" where
  "ring_intersection s e r =
     (case foldr lex_insert (remdups (List.map_filter (seg_hit s e) (edges r))) [] of
        [p] \<Rightarrow> Point p
      | ps \<Rightarrow> MultiPoint ps)"

fun geom_list :: "geom \<Rightarrow> geom listing" where
  "geom_list (Point p) = Raised TypeError"
| "geom_list (MultiPoint ps) = Listed (map Point ps)"

definition seg_dist2 :: "pt \<Rightarrow> pt \<times> pt \<Rightarrow> real" where
  \<comment> \<open>the square of the distance from \<open>p\<close> to the segment from \<open>a\<close> to \<open>b\<close>\<close>
  "seg_dist2 p ab =
     (let a = fst ab; b = snd ab; d = vsub b a; l2 = dot d d
      in if l2 = 0 then dot (vsub p a) (vsub p a)
         else (let t = max 0 (min 1 (dot (vsub p a) d / l2)); c = vadd a (smul t d)
               in dot (vsub p c) (vsub p c)))"

fun geom_points :: "geom \<Rightarrow> pt list" where
  "geom_points (Point p) = [p]"
| "geom_points (MultiPoint ps) = ps"

definition min_list_real :: "real list \<Rightarrow> real" where
  "min_list_real xs = fold min (tl xs) (hd xs)"

definition segment_distance :: "pt \<Rightarrow> pt \<Rightarrow> geom \<Rightarrow> real" where
  "segment_distance a b g = sqrt (min_list_real (map (\<lambda>p. seg_dist2 p (a, b)) (geom_points g)))"

definition crosses_right :: "pt \<Rightarrow> pt \<times> pt \<Rightarrow> bool" where
  \<comment> \<open>the edge crosses the horizontal half-line going right from \<open>p\<close>\<close>
  "crosses_right p ab =
     (let a = fst ab; b = snd ab
      in (snd a > snd p) \<noteq> (snd b > snd p) \<and>
         fst p < (fst b - fst a) * (snd p - snd a) / (snd b - snd a) + fst a)"

definition inside :: "pt \<Rightarrow> pt list \<Rightarrow> bool" where
  "inside p r = odd (length (filter (crosses_right p) (edges r)))"

definition point_distance :: "pt \<Rightarrow> pt list \<Rightarrow> real" where
  "point_distance p r =
     (if inside p r then 0 else sqrt (min_list_real (map (seg_dist2 p) (edges r))))"

definition geom_distance :: "geom \<Rightarrow> pt list \<Rightarrow> real" where
  "geom_distance g r = min_list_real (map (\<lambda>p. point_distance p r) (geom_points g))"

fun clip :: "(pt \<Rightarrow> real) \<Rightarrow> (pt \<times> pt) list \<Rightarrow> pt list" where
  \<comment> \<open>the part of a ring where \<open>side\<close> is not negative, edge by edge\<close>
  "clip side [] = []"
| "clip side ((a, b) # es) =
     (if 0 \<le> side a then [a] else []) @
     (if side a * side b < 0 then [vadd a (smul (side a / (side a - side b)) (vsub b a))] else []) @
     clip side es"

definition close_ring :: "pt list \<Rightarrow> pt list" where
  "close_ring ps = (if ps = [] then [] else ps @ [hd ps])"

definition split_by_line :: "pt list \<Rightarrow> pt \<Rightarrow> pt \<Rightarrow> pt list list" where
  \<comment> \<open>the pieces left and right of the line through \<open>c1\<close> and \<open>c2\<close>; the polygon
      itself when the line leaves nothing on one side\<close>
  "split_by_line r c1 c2 =
     (let side = (\<lambda>p. cross (vsub c2 c1) (vsub p c1));
          left = close_ring (clip side (edges r));
          right = close_ring (clip (\<lambda>p. - side p) (edges r))
      in if shoelace left = 0 \<or> shoelace right = 0 then [r] else [left, right])"

definition plane :: "(pt list, geom) shapely" where
  "plane = \<lparr>is_ccw = (\<lambda>r. 0 \<le> shoelace r),
            exterior_coords = (\<lambda>r. r),
            Polygon = (\<lambda>ps. if ps \<noteq> [] \<and> hd ps \<noteq> last ps then ps @ [hd ps] else ps),
            minimum_rotated_rectangle = bounding_box,
            centroid = ring_centroid,
            intersection = ring_intersection,
            list_of = geom_list,
            boundary_coords = (\<lambda>r. r),
            LineString_distance = segment_distance,
            area = (\<lambda>r. \<bar>shoelace r\<bar> / 2),
            ops_split = split_by_line,
            distance = geom_distance\<rparr>"

text \<open>
  Two polygons in a rectangle of 30 by 40, whose diagonal is 50: the rectangle
  itself, listed clockwise, and a U open to the north, listed counter-clockwise,
  whose centroid \<open>(15, 55/3)\<close> lies in the opening. \<open>process\<close> is a process in
  which one Area, object 0, has been made of the given polygon.
\<close>

definition rectangle_cw :: "pt list" where
  "rectangle_cw = [(0, 0), (0, 40), (30, 40), (30, 0), (0, 0)]"

definition u_shape :: "pt list" where
  "u_shape = [(0, 0), (30, 0), (30, 40), (20, 40), (20, 10), (10, 10), (10, 40), (0, 40), (0, 0)]"

definition process :: "pt list \<Rightarrow> pt list store" where
  "process r = snd (Area_init r HOUSE None Area_class)"

text \<open>
  The run used below: \<^verbatim>\<open>split(1/2, 90)\<close> on the U. The path goes east from
  the centroid and crosses the boundary at \<open>(20, 55/3)\<close> and \<open>(30, 55/3)\<close>; the
  edge found is the east side, from \<open>(30, 0)\<close> to \<open>(30, 40)\<close>. \<open>east h\<close> are the
  local variables for a target area \<open>h\<close>; \<open>east_piece\<close> and \<open>west_piece\<close> are the
  two pieces when the loop ends, after eight cuts; \<open>east_store\<close> is the store
  afterwards. \<open>west h\<close> are the local variables of \<^verbatim>\<open>split\<close> with direction
  270 on the same polygon.
\<close>

definition east :: "real \<Rightarrow> (pt list, geom) locals" where
  "east h = \<lparr>self_polygon = u_shape, pt_intersection = Point (30, 55 / 3),
              pt1 = (30, 0), pt2 = (30, 40), directory = (0, 1), orth = (- 1, 0),
              diameter = 50, house_area = h\<rparr>"


definition east_piece :: "pt list" where
  "east_piece = [(1915 / 128, 0), (30, 0), (30, 40), (20, 40), (20, 10),
                 (1915 / 128, 10), (1915 / 128, 0)]"

definition west_piece :: "pt list" where
  "west_piece = [(0, 0), (1915 / 128, 0), (1915 / 128, 10), (10, 10), (10, 40), (0, 40), (0, 0)]"

definition east_store :: "bool \<Rightarrow> Category \<Rightarrow> pt list store" where
  "east_store inplace c =
     \<lparr>last_id = 3, members = [0, 1, 2],
      areas = [\<lparr>Area_polygon = u_shape, Area_category = HOUSE,
                Area_sub_areas = (if inplace then 3 else 0), Area_id = 1\<rparr>,
               \<lparr>Area_polygon = east_piece, Area_category = HOUSE, Area_sub_areas = 1, Area_id = 2\<rparr>,
               \<lparr>Area_polygon = west_piece, Area_category = c, Area_sub_areas = 2, Area_id = 3\<rparr>],
      list_objects = [[], [], []] @ (if inplace then [[1, 2]] else [])\<rparr>"

section \<open>Properties of the constructor, the loop and split\<close>

lemma Area_init_None:
  "Area_init p c None s =
     (length (areas s),
      s\<lparr>last_id := last_id s + 1,
        members := members s @ [length (areas s)],
        areas := areas s @ [\<lparr>Area_polygon = p, Area_category = c,
                            Area_sub_areas = length (list_objects s), Area_id = last_id s + 1\<rparr>],
        list_objects := list_objects s @ [[]]\<rparr>)"
  by (simp add: Area_init_def new_list_def get_id_def Let_def)

lemma Area_init_Some:
  "Area_init p c (Some l) s =
     (length (areas s),
      s\<lparr>last_id := last_id s + 1,
        members := members s @ [length (areas s)],
        areas := areas s @ [\<lparr>Area_polygon = p, Area_category = c,
                            Area_sub_areas = l, Area_id = last_id s + 1\<rparr>]\<rparr>)"
  by (simp add: Area_init_def new_list_def get_id_def Let_def)

lemma orient_Inr: "orient lib self s = (Inr u, s0) \<Longrightarrow> s0 = s \<and> is_ccw lib (polygon s self)"
  by (auto simp: orient_def polygon_set_def Let_def split: if_splits)

lemma orient_store: "orient lib self s = (out, s0) \<Longrightarrow> s0 = s"
  by (auto simp: orient_def polygon_set_def Let_def split: if_splits)

lemma split_locals_Inr:
  "split_locals lib p percentage direction = Inr L \<Longrightarrow>
     self_polygon L = p \<and> house_area L = area lib p * percentage"
  by (auto simp: split_locals_def Let_def split: sum.splits option.splits prod.splits)

lemma split_areas_frame:
  assumes "split_areas self res inplace nc s = (out, s')" and "self < length (areas s)"
  shows "polygon s' self = polygon s self \<and> category s' self = category s self \<and>
         identity s' self = identity s self"
  using assms
  by (auto simp: split_areas_def Area_init_None new_list_def index_def polygon_def category_def
        identity_def nth_append Let_def split: if_splits)

lemma split_areas_Inr:
  assumes "split_areas self res inplace nc s = (Inr r, s')" and "self < length (areas s)"
  shows "1 < length res \<and>
         polygon s' (length (areas s)) = res ! 0 \<and>
         polygon s' (Suc (length (areas s))) = res ! 1 \<and>
         category s' (length (areas s)) = category s self \<and>
         category s' (Suc (length (areas s))) = nc \<and>
         (if inplace then r = ReturnNone \<and> sub_areas s' self = [length (areas s), Suc (length (areas s))]
          else r = ReturnPair (length (areas s)) (Suc (length (areas s))) \<and>
               Area_sub_areas (areas s' ! self) = Area_sub_areas (areas s ! self) \<and>
               (\<forall>l < length (list_objects s). list_objects s' ! l = list_objects s ! l))"
  using assms
  by (auto simp: split_areas_def Area_init_None new_list_def index_def polygon_def category_def
        sub_areas_def nth_append Let_def split: if_splits)


lemma split_cases:
  assumes "split lib self pc d ip nc s = Some (out, s')"
  shows "(pc \<le> 0 \<and> out = Inl AssertionError \<and> s' = s) \<or>
         (0 < pc \<and> \<not> is_ccw lib (polygon s self) \<and> out = Inl AttributeError \<and> s' = s) \<or>
         (0 < pc \<and> is_ccw lib (polygon s self) \<and>
            (\<exists>e. split_locals lib (polygon s self) pc d = Inl e \<and> out = Inl e \<and> s' = s)) \<or>
         (0 < pc \<and> is_ccw lib (polygon s self) \<and>
            (\<exists>L. split_locals lib (polygon s self) pc d = Inr L \<and>
               ((\<exists>e. while_loop lib L ([polygon s self], diameter L / 2, diameter L / 2) = Some (Inl e) \<and>
                     out = Inl e \<and> s' = s) \<or>
                (\<exists>res. while_loop lib L ([polygon s self], diameter L / 2, diameter L / 2) = Some (Inr res) \<and>
                     split_areas self res (case ip of None \<Rightarrow> True | Some b \<Rightarrow> b)
                       (case nc of None \<Rightarrow> GARDEN | Some c \<Rightarrow> c) s = (out, s')))))"
proof (cases "0 < pc")
  case False
  with assms show ?thesis by (simp add: split_def)
next
  case pos: True
  show ?thesis
  proof (cases "is_ccw lib (polygon s self)")
    case False
    with assms pos show ?thesis
      by (simp add: split_def orient_def polygon_set_def)
  next
    case ccw: True
    then have o: "orient lib self s = (Inr (), s)" by (simp add: orient_def)
    show ?thesis
    proof (cases "split_locals lib (polygon s self) pc d")
      case (Inl e)
      with assms pos ccw o show ?thesis by (simp add: split_def)
    next
      case (Inr L)
      with assms pos ccw o show ?thesis
        by (auto simp: split_def split: option.splits sum.splits)
    qed
  qed
qed

lemma split_locals_Inl:
  assumes "split_locals lib p pc d = Inl e"
  shows "e = IndexError \<or> e = TypeError \<or> (\<exists>g. list_of lib g = Raised e)"
  using assms
  by (auto simp: split_locals_def split_path_def split_pt_intersection_def index_def Let_def
        split: sum.splits option.splits prod.splits if_splits listing.splits)

lemma loop_body_Inl: "loop_body lib L st = Inl e \<Longrightarrow> e = IndexError"
  by (auto simp: loop_body_def index_def Let_def split: prod.splits if_splits sum.splits)

lemma while_loop_Inl_aux:
  assumes "while_loop lib L st = Some y"
  shows "case y of Inl e \<Rightarrow> e = IndexError | Inr res \<Rightarrow> True"
proof (rule while_loop.raw_induct[OF _ assms], goal_cases)
  case (1 loop lib L st y)
  show ?case
  proof (cases "index (fst st) 0")
    case (Inl e)
    with 1(2) show ?thesis by (auto simp: index_def split: if_splits)
  next
    case (Inr first)
    show ?thesis
    proof (cases "1 < \<bar>area lib first - house_area L\<bar>")
      case False
      with 1(2) Inr show ?thesis by auto
    next
      case True
      show ?thesis
      proof (cases "loop_body lib L st")
        case (Inl e)
        with 1(2) Inr True show ?thesis by (auto dest: loop_body_Inl)
      next
        case st': (Inr st')
        with 1(2) Inr True have "loop lib L st' = Some y" by simp
        then show ?thesis by (rule 1(1))
      qed
    qed
  qed
qed

lemma while_loop_Inl: "while_loop lib L st = Some (Inl e) \<Longrightarrow> e = IndexError"
  by (drule while_loop_Inl_aux) simp

lemma split_areas_Inl: "split_areas self res inplace nc s = (Inl e, s') \<Longrightarrow> e = IndexError"
  by (auto simp: split_areas_def index_def Area_init_None new_list_def Let_def split: if_splits)

lemma while_loop_exit_aux:
  assumes "while_loop lib L st = Some y"
  shows "case y of Inl e \<Rightarrow> True | Inr res \<Rightarrow> (\<exists>first. index res 0 = Inr first \<and> \<bar>area lib first - house_area L\<bar> \<le> 1)"
proof (rule while_loop.raw_induct[OF _ assms], goal_cases)
  case (1 loop lib L st y)
  show ?case
  proof (cases "index (fst st) 0")
    case (Inl e)
    with 1(2) show ?thesis by auto
  next
    case (Inr first)
    show ?thesis
    proof (cases "1 < \<bar>area lib first - house_area L\<bar>")
      case False
      with 1(2) Inr show ?thesis by auto
    next
      case True
      show ?thesis
      proof (cases "loop_body lib L st")
        case (Inl e)
        with 1(2) Inr True show ?thesis by auto
      next
        case st': (Inr st')
        with 1(2) Inr True have "loop lib L st' = Some y" by simp
        then show ?thesis by (rule 1(1))
      qed
    qed
  qed
qed

lemma while_loop_exit:
  "while_loop lib L st = Some (Inr res) \<Longrightarrow> \<bar>area lib (res ! 0) - house_area L\<bar> \<le> 1"
  by (drule while_loop_exit_aux) (auto simp: index_def split: if_splits)

text \<open>
  The tolerance. Whenever \<^verbatim>\<open>split\<close> returns, the first of the two Areas it made
  has a polygon whose area differs from \<open>percentage\<close> times the area of the
  polygon of \<open>self\<close> by at most 1: this is the negation of the loop's
  condition. It holds for every polygon, percentage and direction, and whether the
  two Areas are returned or installed as sub-areas. That \<^verbatim>\<open>split\<close> returns is a
  hypothesis here; the runs below show calls that end with an exception instead.
\<close>

lemma split_first_area_within_tolerance:
  assumes "split lib self percentage direction inplace new_category s = Some (Inr r, s')"
      and "self < length (areas s)"
  shows "\<exists>first second. fragments r s' self = [first, second] \<and>
           \<bar>area lib (polygon s' first) - percentage * area lib (polygon s self)\<bar> \<le> 1"
proof -
  from split_cases[OF assms(1)] obtain L res where
    L: "split_locals lib (polygon s self) percentage direction = Inr L" and
    w: "while_loop lib L ([polygon s self], diameter L / 2, diameter L / 2) = Some (Inr res)" and
    a: "split_areas self res (case inplace of None \<Rightarrow> True | Some b \<Rightarrow> b)
          (case new_category of None \<Rightarrow> GARDEN | Some c \<Rightarrow> c) s = (Inr r, s')"
    by auto
  from split_locals_Inr[OF L] have h: "house_area L = area lib (polygon s self) * percentage" by simp
  from while_loop_exit[OF w] h
  have tol: "\<bar>area lib (res ! 0) - percentage * area lib (polygon s self)\<bar> \<le> 1"
    by (simp add: mult.commute)
  from split_areas_Inr[OF a assms(2)]
  have "fragments r s' self = [length (areas s), Suc (length (areas s))]"
    and "polygon s' (length (areas s)) = res ! 0"
    by (auto simp: fragments_def split: if_splits)
  with tol show ?thesis by auto
qed

text \<open>
  Claim C3, as amended. The only check of \<^verbatim>\<open>split\<close> on \<open>percentage\<close> is
  \<^verbatim>\<open>assert percentage > 0\<close>: the call raises AssertionError, with the store
  untouched, when \<open>percentage \<le> 0\<close>, and for no positive percentage, also not for
  one that is 1 or more (provided the library raises no AssertionError of its own
  when a geometry is listed).
\<close>
theorem split_assertion:
  assumes "\<And>g. list_of lib g \<noteq> Raised AssertionError"
  shows "(percentage \<le> 0 \<longrightarrow>
            split lib self percentage direction inplace new_category s = Some (Inl AssertionError, s)) \<and>
         (0 < percentage \<longrightarrow>
            (\<forall>s'. split lib self percentage direction inplace new_category s \<noteq> Some (Inl AssertionError, s')))"
proof (intro conjI impI allI)
  assume "percentage \<le> 0"
  then show "split lib self percentage direction inplace new_category s = Some (Inl AssertionError, s)"
    by (simp add: split_def)
next
  fix s'
  assume pos: "0 < percentage"
  show "split lib self percentage direction inplace new_category s \<noteq> Some (Inl AssertionError, s')"
  proof
    assume "split lib self percentage direction inplace new_category s = Some (Inl AssertionError, s')"
    from split_cases[OF this] pos assms show False
      by (auto dest: split_locals_Inl while_loop_Inl split_areas_Inl)
  qed
qed

text \<open>
  Claim C4. In an iteration of the loop in which \<^verbatim>\<open>ops.split\<close> yields two pieces,
  the iteration goes on with these two pieces, the first of them not farther from
  \<^verbatim>\<open>pt_intersection\<close> than the second.
\<close>
theorem loop_body_first_is_nearer:
  assumes "ops_split lib (self_polygon L) (fst (cut_line L width)) (snd (cut_line L width)) = [a, b]"
  shows "\<exists>first second.
           loop_body lib L (res, width, dw) =
             Inr ([first, second],
                  if area lib first > house_area L then width - dw / 2 else width + dw / 2, dw / 2) \<and>
           ((first, second) = (a, b) \<or> (first, second) = (b, a)) \<and>
           distance lib (pt_intersection L) first \<le> distance lib (pt_intersection L) second"
  using assms by (auto simp: loop_body_def index_def Let_def)


text \<open>
  The effect of a call that returns. The polygon of \<open>self\<close> is what it was. With
  \<^verbatim>\<open>inplace=False\<close> the call returns the two new Areas, and \<^verbatim>\<open>_sub_areas\<close> is
  the same list object with the same content as before; otherwise (\<^verbatim>\<open>inplace\<close>
  true or omitted) it returns \<^verbatim>\<open>None\<close> and the sub-areas of \<open>self\<close> are
  exactly the two new Areas, first then second.
\<close>

lemma split_inplace:
  assumes "split lib self percentage direction inplace new_category s = Some (Inr r, s')"
      and "self < length (areas s)" and "store_ok s"
  shows "polygon s' self = polygon s self \<and>
         (if inplace = Some False
          then r = ReturnPair (length (areas s)) (Suc (length (areas s))) \<and>
               Area_sub_areas (areas s' ! self) = Area_sub_areas (areas s ! self) \<and>
               sub_areas s' self = sub_areas s self
          else r = ReturnNone \<and> sub_areas s' self = [length (areas s), Suc (length (areas s))])"
proof -
  from split_cases[OF assms(1)] obtain res where
    a: "split_areas self res (case inplace of None \<Rightarrow> True | Some b \<Rightarrow> b)
          (case new_category of None \<Rightarrow> GARDEN | Some c \<Rightarrow> c) s = (Inr r, s')"
    by auto
  from assms(2,3) have l: "Area_sub_areas (areas s ! self) < length (list_objects s)"
    by (simp add: store_ok_def)
  from split_areas_frame[OF a assms(2)] split_areas_Inr[OF a assms(2)] l show ?thesis
    by (cases inplace) (auto simp: sub_areas_def split: if_splits)
qed



text \<open>
  Claim C7. The list \<^verbatim>\<open>components\<close> returns holds the sub-areas of \<open>self\<close>
  when there are any, and \<open>self\<close> alone otherwise; it is never empty.
\<close>
theorem components_returns:
  "list_objects (snd (components self s)) ! fst (components self s) =
     (if sub_areas s self \<noteq> [] then sub_areas s self else [self]) \<and>
   list_objects (snd (components self s)) ! fst (components self s) \<noteq> []"
  by (simp add: components_def new_list_def sub_areas_def)

lemma Area_init_areas:
  "areas (snd (Area_init p c l s)) =
     areas s @ [\<lparr>Area_polygon = p, Area_category = c,
                  Area_sub_areas = (case l of None \<Rightarrow> length (list_objects s) | Some r \<Rightarrow> r),
                  Area_id = last_id s + 1\<rparr>] \<and>
   last_id (snd (Area_init p c l s)) = last_id s + 1 \<and>
   fst (Area_init p c l s) = length (areas s)"
  by (cases l) (simp_all add: Area_init_None Area_init_Some)

lemma Area_init_ids_ok:
  assumes "ids_ok s"
  shows "ids_ok (snd (Area_init p c l s))"
  using assms
  by (fastforce simp: ids_ok_def Area_init_areas sorted_wrt_append)

lemma constructions_ids_ok:
  "ids_ok s \<Longrightarrow> ids_ok (snd (constructions cs s))"
proof (induction cs arbitrary: s)
  case Nil
  then show ?case by simp
next
  case (Cons x cs)
  obtain p c l where x: "x = (p, c, l)" by (cases x)
  obtain a s1 where a: "Area_init p c l s = (a, s1)" by (cases "Area_init p c l s")
  obtain as s2 where r: "constructions cs s1 = (as, s2)" by (cases "constructions cs s1")
  from Area_init_ids_ok[OF Cons.prems, of p c l] a have "ids_ok s1" by simp
  from Cons.IH[OF this] r show ?case
    by (simp add: x a)
qed

lemma constructions_refs:
  "constructions cs s = (rs, s') \<Longrightarrow>
     rs = [length (areas s)..<length (areas s')] \<and> length (areas s) \<le> length (areas s')"
proof (induction cs arbitrary: s rs s')
  case Nil
  then show ?case by simp
next
  case (Cons x cs)
  obtain p c l where x: "x = (p, c, l)" by (cases x)
  obtain a s1 where a: "Area_init p c l s = (a, s1)" by (cases "Area_init p c l s")
  obtain as s2 where r: "constructions cs s1 = (as, s2)" by (cases "constructions cs s1")
  from Cons.prems x a r have e: "rs = a # as" "s' = s2" by simp_all
  from Area_init_areas[of p c l s] a have n: "a = length (areas s)" "length (areas s1) = Suc (length (areas s))"
    by simp_all
  from Cons.IH[OF r] have "as = [length (areas s1)..<length (areas s2)]" "length (areas s1) \<le> length (areas s2)"
    by simp_all
  with e n show ?case by (simp add: upt_conv_Cons)
qed

text \<open>
  Claim C8. After any sequence of constructor calls, the ids of all Areas of the
  process, those that existed before followed by the new ones in the order they
  were made, are strictly increasing, so no two are equal.
\<close>
theorem constructions_ids_increase:
  assumes "ids_ok s" and "constructions cs s = (rs, s')"
  shows "sorted_wrt (<) (map (identity s') ([0..<length (areas s)] @ rs)) \<and>
         distinct (map (identity s') ([0..<length (areas s)] @ rs))"
proof -
  from constructions_refs[OF assms(2)]
  have rs: "rs = [length (areas s)..<length (areas s')]" and le: "length (areas s) \<le> length (areas s')"
    by simp_all
  from le obtain k where k: "length (areas s') = length (areas s) + k"
    by (auto simp: le_iff_add)
  have "[0..<length (areas s) + k] = [0..<length (areas s)] @ [length (areas s)..<length (areas s) + k]"
    by (rule upt_add_eq_append) simp
  with rs k have all: "[0..<length (areas s)] @ rs = [0..<length (areas s')]" by simp
  have ids: "map (identity s') [0..<length (areas s')] = map Area_id (areas s')"
    by (rule nth_equalityI) (simp_all add: identity_def)
  from constructions_ids_ok[OF assms(1), of cs] assms(2)
  have "sorted_wrt (<) (map Area_id (areas s'))" by (simp add: ids_ok_def)
  then have "sorted_wrt (<) (map (identity s') ([0..<length (areas s)] @ rs))"
    by (simp only: all ids)
  then show ?thesis by (simp only: strict_sorted_iff)
qed

lemma Area_init_store_ok:
  assumes "store_ok s"
  shows "store_ok (snd (Area_init p c None s))"
  using assms by (fastforce simp: store_ok_def Area_init_None)



text \<open>
  What \<^verbatim>\<open>split\<close> does to a polygon that is not counter-clockwise, what it
  does when the area of the polygon is within 1 of the target before the first
  cut, and the ids after a call of \<^verbatim>\<open>split\<close>.
\<close>

lemma split_not_ccw:
  assumes "0 < percentage" and "\<not> is_ccw lib (polygon s self)"
  shows "split lib self percentage direction inplace new_category s = Some (Inl AttributeError, s)"
  using assms by (simp add: split_def orient_def polygon_set_def)

lemma split_small_gap:
  assumes "0 < percentage" and "is_ccw lib (polygon s self)"
      and "split_locals lib (polygon s self) percentage direction = Inr L"
      and "\<bar>area lib (polygon s self) - area lib (polygon s self) * percentage\<bar> \<le> 1"
  shows "split lib self percentage direction inplace new_category s =
           Some (Inl IndexError, snd (Area_init (polygon s self) (category s self) None s))"
proof -
  from split_locals_Inr[OF assms(3)]
  have h: "house_area L = area lib (polygon s self) * percentage" by simp
  have w: "while_loop lib L ([polygon s self], diameter L / 2, diameter L / 2) =
             Some (Inr [polygon s self])"
    using assms(4) by (subst while_loop.simps) (simp add: index_def h)
  have a: "split_areas self [polygon s self] b c s =
             (Inl IndexError, snd (Area_init (polygon s self) (category s self) None s))" for b c
    by (simp add: split_areas_def index_def Area_init_None)
  from assms(1,2) show ?thesis
    by (simp add: split_def orient_def assms(3) w a)
qed

lemma update_sub_areas_ids: "map Area_id (xs[i := (xs ! i)\<lparr>Area_sub_areas := l\<rparr>]) = map Area_id xs"
proof (cases "i < length xs")
  case True
  then have "(map Area_id xs)[i := Area_id (xs ! i)] = map Area_id xs"
    by (metis list_update_id nth_map)
  then show ?thesis by (simp add: map_update)
next
  case False
  then show ?thesis by (simp add: list_update_beyond)
qed

lemma split_areas_ids:
  assumes "split_areas self res inplace c s = (out, s')"
  shows "(map Area_id (areas s'), last_id s') \<in>
           {(map Area_id (areas s), last_id s),
            (map Area_id (areas s) @ [last_id s + 1], last_id s + 1),
            (map Area_id (areas s) @ [last_id s + 1, last_id s + 2], last_id s + 2)}"
  using assms
  by (auto simp: split_areas_def Area_init_None new_list_def index_def Let_def
        update_sub_areas_ids split: if_splits)

lemma split_areas_ids_ok:
  assumes "split_areas self res inplace c s = (out, s')" and "ids_ok s"
  shows "ids_ok s'"
  using split_areas_ids[OF assms(1)] assms(2)
  by (fastforce simp: ids_ok_def sorted_wrt_append)

lemma split_ids_ok:
  assumes "split lib self percentage direction inplace new_category s = Some (out, s')" and "ids_ok s"
  shows "ids_ok s'"
  using split_cases[OF assms(1)] assms(2) by (auto dest: split_areas_ids_ok)

section \<open>Concrete runs\<close>

text \<open>
  The runs are evaluated by rewriting. The square roots that occur are those of
  2500, 1600 and 900, and those compared with the tolerance \<open>1E-6\<close> of line 146.
\<close>

lemma sqrt_2500: "sqrt 2500 = 50"
  by (rule real_sqrt_unique) simp_all

lemma sqrt_1600: "sqrt 1600 = 40"
  by (rule real_sqrt_unique) simp_all

lemma sqrt_less_pos: "0 < y \<Longrightarrow> (sqrt x < y) = (x < y\<^sup>2)"
  by (metis real_sqrt_less_iff real_sqrt_abs abs_of_pos)

lemma sqrt_near: "(sqrt x * 1000000 < 1) = (x * 1000000000000 < 1)"
proof -
  have "(sqrt x * 1000000 < 1) = (sqrt x < 1 / 1000000)" by (simp add: field_simps)
  also have "\<dots> = (x < (1 / 1000000)\<^sup>2)" by (rule sqrt_less_pos) simp
  also have "\<dots> = (x * 1000000000000 < 1)" by (simp add: field_simps power2_eq_square)
  finally show ?thesis .
qed

lemma third_55: "\<exists>b::real. b * 3 = 55"
  by (rule exI[of _ "55 / 3"]) simp

lemmas plane_defs = plane_def bounding_box_def ring_centroid_def
  vadd_def vsub_def smul_def vdiv_def vnorm_def deg2rad_def index_def cross_def dot_def
  edges_def seg_hit_def lex_le_def ring_intersection_def seg_dist2_def min_list_real_def
  segment_distance_def crosses_right_def inside_def point_distance_def geom_distance_def
  close_ring_def split_by_line_def List.map_filter_def

lemma plane_list_of: "list_of plane g \<noteq> Raised AssertionError"
  by (cases g) (simp_all add: plane_def)

lemma process_eq:
  "process r = \<lparr>last_id = 1, members = [0],
                 areas = [\<lparr>Area_polygon = r, Area_category = HOUSE, Area_sub_areas = 0, Area_id = 1\<rparr>],
                 list_objects = [[]]\<rparr>"
  by (simp add: process_def Area_init_None Area_class_def)

lemma process_store_ok: "store_ok (process r)"
  by (simp add: process_eq store_ok_def)

lemma process_self: "0 < length (areas (process r))"
  by (simp add: process_eq)

lemma Area_class_ids_ok: "ids_ok Area_class"
  by (simp add: ids_ok_def Area_class_def)

lemma u_shape_ccw: "is_ccw plane u_shape"
  by (simp add: plane_def u_shape_def cross_def)

lemma east_path: "split_path plane u_shape 90 = Inr (50, (15, 55 / 3), (65, 55 / 3))"
  by (simp add: split_path_def u_shape_def plane_defs sqrt_2500 Let_def)

lemma east_hit: "split_pt_intersection plane u_shape (15, 55 / 3) (65, 55 / 3) = Inr (Point (30, 55 / 3))"
  by (simp add: split_pt_intersection_def u_shape_def plane_defs Let_def third_55)

lemma east_edge: "split_edge plane u_shape (Point (30, 55 / 3)) = Some ((30, 0), (30, 40))"
  by (simp add: split_edge_def u_shape_def plane_defs Let_def sqrt_near)

lemma east_locals: "split_locals plane u_shape percentage 90 = Inr (east (900 * percentage))"
  by (simp add: split_locals_def east_path east_hit east_edge)
     (simp add: east_def u_shape_def plane_defs sqrt_1600)

lemma east_first_cut:
  "ops_split plane (self_polygon (east h)) (fst (cut_line (east h) 25)) (snd (cut_line (east h) 25)) =
     [[(0, 0), (5, 0), (5, 40), (0, 40), (0, 0)],
      [(5, 0), (30, 0), (30, 40), (20, 40), (20, 10), (10, 10), (10, 40), (5, 40), (5, 0)]]"
  by (simp add: east_def cut_line_def u_shape_def plane_defs Let_def)

lemma east_loop: "while_loop plane (east 450) ([u_shape], 25, 25) = Some (Inr [east_piece, west_piece])"
  by (simp add: while_loop.simps loop_body_def east_def cut_line_def u_shape_def plane_defs Let_def
        east_piece_def west_piece_def)

lemma east_loop_too_much: "while_loop plane (east 1800) ([u_shape], 25, 25) = Some (Inl IndexError)"
  by (simp add: while_loop.simps loop_body_def east_def cut_line_def u_shape_def plane_defs Let_def)

lemma east_split:
  "split plane 0 (1 / 2) 90 inplace new_category (process u_shape) =
     Some (split_areas 0 [east_piece, west_piece] (case inplace of None \<Rightarrow> True | Some b \<Rightarrow> b)
       (case new_category of None \<Rightarrow> GARDEN | Some c \<Rightarrow> c) (process u_shape))"
proof -
  have p: "polygon (process u_shape) 0 = u_shape" by (simp add: process_eq polygon_def)
  have d: "diameter (east 450) = 50" by (simp add: east_def)
  show ?thesis
    by (simp add: split_def orient_def p u_shape_ccw east_locals d east_loop)
qed

lemma east_areas:
  "split_areas 0 [east_piece, west_piece] inplace c (process u_shape) =
     (Inr (if inplace then ReturnNone else ReturnPair 1 2), east_store inplace c)"
  by (simp add: split_areas_def index_def Area_init_None new_list_def process_eq category_def
        east_store_def)

lemma east_split_inplace:
  "split plane 0 (1 / 2) 90 None None (process u_shape) = Some (Inr ReturnNone, east_store True GARDEN)"
  by (simp add: east_split east_areas)

lemma east_split_pair:
  "split plane 0 (1 / 2) 90 (Some False) None (process u_shape) =
     Some (Inr (ReturnPair 1 2), east_store False GARDEN)"
  by (simp add: east_split east_areas)


text \<open>
  The run on the U returns, in place: the first new Area is the east piece, of area
  \<open>57675/128\<close>, within 1 of the target 450.
\<close>

lemma split_first_area_within_tolerance_witness:
  "\<exists>first second. fragments ReturnNone (east_store True GARDEN) 0 = [first, second] \<and>
     \<bar>area plane (polygon (east_store True GARDEN) first)
        - 1 / 2 * area plane (polygon (process u_shape) 0)\<bar> \<le> 1"
  by (rule split_first_area_within_tolerance[OF east_split_inplace]) (simp add: process_eq)

text \<open>The check at \<open>percentage = 0\<close>, which raises, and at \<open>1/2\<close>, which does not.\<close>

theorem split_assertion_witness:
  "split plane 0 0 90 None None (process u_shape) = Some (Inl AssertionError, process u_shape) \<and>
   split plane 0 (1 / 2) 90 None None (process u_shape) \<noteq> Some (Inl AssertionError, process u_shape)"
  using split_assertion[of plane 0 0 90 None None "process u_shape", OF plane_list_of]
        split_assertion[of plane "1 / 2" 0 90 None None "process u_shape", OF plane_list_of]
  by simp

text \<open>
  Claim C3 as stated fails at \<open>percentage = 2\<close>, outside the interval: the
  assertion passes, the loop runs, its second cut misses the polygon and
  \<^verbatim>\<open>res[1]\<close> raises IndexError.
\<close>

theorem split_assertion_counterexample:
  "split plane 0 2 90 None None (process u_shape) = Some (Inl IndexError, process u_shape)"
proof -
  have p: "polygon (process u_shape) 0 = u_shape" by (simp add: process_eq polygon_def)
  have d: "diameter (east 1800) = 50" by (simp add: east_def)
  show ?thesis
    by (simp add: split_def orient_def p u_shape_ccw east_locals d east_loop_too_much)
qed

text \<open>
  The first iteration of the run on the U: the cut at \<open>x = 5\<close> yields the strip
  west of it and the rest, and the rest, which touches \<^verbatim>\<open>pt_intersection\<close>,
  comes first.
\<close>

theorem loop_body_first_is_nearer_witness:
  "\<exists>first second.
     loop_body plane (east 450) ([u_shape], 25, 25) =
       Inr ([first, second],
            if area plane first > house_area (east 450) then 25 - 25 / 2 else 25 + 25 / 2, 25 / 2) \<and>
     ((first, second) =
        ([(0, 0), (5, 0), (5, 40), (0, 40), (0, 0)],
         [(5, 0), (30, 0), (30, 40), (20, 40), (20, 10), (10, 10), (10, 40), (5, 40), (5, 0)]) \<or>
      (first, second) =
        ([(5, 0), (30, 0), (30, 40), (20, 40), (20, 10), (10, 10), (10, 40), (5, 40), (5, 0)],
         [(0, 0), (5, 0), (5, 40), (0, 40), (0, 0)])) \<and>
     distance plane (pt_intersection (east 450)) first \<le> distance plane (pt_intersection (east 450)) second"
  by (rule loop_body_first_is_nearer[OF east_first_cut])











text \<open>The run on the U, in place and with \<^verbatim>\<open>inplace=False\<close>.\<close>

lemma split_inplace_witness:
  "polygon (east_store True GARDEN) 0 = polygon (process u_shape) 0 \<and>
   sub_areas (east_store True GARDEN) 0 = [1, 2] \<and>
   polygon (east_store False GARDEN) 0 = polygon (process u_shape) 0 \<and>
   sub_areas (east_store False GARDEN) 0 = sub_areas (process u_shape) 0"
  using split_inplace[OF east_split_inplace process_self process_store_ok]
        split_inplace[OF east_split_pair process_self process_store_ok]
  by (simp add: process_eq)


text \<open>
  Claim C2 does not hold of the code. For a polygon whose exterior ring is not
  counter-clockwise, line 127 assigns to \<^verbatim>\<open>self.polygon\<close>, a property that has
  no setter: the assignment raises AttributeError, the polygon is not reversed and
  the algorithm does not proceed. Here \<^verbatim>\<open>split(1/2, 90)\<close> on the rectangle listed
  clockwise.
\<close>
theorem split_clockwise_raises:
  "split plane 0 (1 / 2) 90 None None (process rectangle_cw) =
     Some (Inl AttributeError, process rectangle_cw)"
proof -
  have "\<not> is_ccw plane (polygon (process rectangle_cw) 0)"
    by (simp add: process_eq polygon_def plane_def rectangle_cw_def cross_def)
  then show ?thesis by (simp add: split_not_ccw)
qed

lemma u_shape_area: "area plane u_shape = 900"
  by (simp add: plane_def u_shape_def cross_def)

lemma u_shape_small_gap:
  "split plane 0 (999 / 1000) 90 inplace new_category (process u_shape) =
     Some (Inl IndexError, snd (Area_init u_shape HOUSE None (process u_shape)))"
proof -
  have p: "polygon (process u_shape) 0 = u_shape" by (simp add: process_eq polygon_def)
  have c: "category (process u_shape) 0 = HOUSE" by (simp add: process_eq category_def)
  have "split plane 0 (999 / 1000) 90 inplace new_category (process u_shape) =
          Some (Inl IndexError,
                snd (Area_init (polygon (process u_shape) 0) (category (process u_shape) 0) None
                       (process u_shape)))"
  proof (rule split_small_gap)
    show "(0::real) < 999 / 1000" by simp
    show "is_ccw plane (polygon (process u_shape) 0)" by (simp add: p u_shape_ccw)
    show "split_locals plane (polygon (process u_shape) 0) (999 / 1000) 90 =
            Inr (east (900 * (999 / 1000)))"
      by (simp only: p east_locals)
    show "\<bar>area plane (polygon (process u_shape) 0)
             - area plane (polygon (process u_shape) 0) * (999 / 1000)\<bar> \<le> 1"
      by (simp add: p u_shape_area)
  qed
  then show ?thesis by (simp add: p c)
qed

text \<open>
  Claim C1 does not hold of the code. When the area of the polygon is within 1 of
  the target before the first cut, the condition of line 159 is false at once and
  \<^verbatim>\<open>res\<close> is still the one polygon: line 178 makes an Area of it and line 179
  raises IndexError at \<^verbatim>\<open>res[1]\<close>. No pair is returned, and the Area just made
  stays in \<^verbatim>\<open>Area.members\<close>. Here \<^verbatim>\<open>split(0.999, 90, inplace=False)\<close> on the U,
  of area 900, with the target 899.1.
\<close>
theorem split_small_gap_raises:
  "split plane 0 (999 / 1000) 90 (Some False) None (process u_shape) =
     Some (Inl IndexError,
           \<lparr>last_id = 2, members = [0, 1],
            areas = [\<lparr>Area_polygon = u_shape, Area_category = HOUSE, Area_sub_areas = 0, Area_id = 1\<rparr>,
                     \<lparr>Area_polygon = u_shape, Area_category = HOUSE, Area_sub_areas = 1, Area_id = 2\<rparr>],
            list_objects = [[], []]\<rparr>)"
  by (simp add: u_shape_small_gap Area_init_None) (simp add: process_eq)

text \<open>
  Claim C6 does not hold of the code. With \<^verbatim>\<open>inplace=True\<close>, the call on the
  rectangle listed clockwise ends at line 127 with AttributeError, and the call
  with percentage 0.999 on the U ends at line 179 with IndexError: after both the
  sub-areas of \<open>self\<close> are still empty, and after the second the Area made at
  line 178 has been added to \<^verbatim>\<open>Area.members\<close>.
\<close>
theorem split_sets_no_sub_areas:
  "split plane 0 (1 / 2) 90 (Some True) None (process rectangle_cw) =
     Some (Inl AttributeError, process rectangle_cw) \<and>
   sub_areas (process rectangle_cw) 0 = [] \<and>
   split plane 0 (999 / 1000) 90 (Some True) None (process u_shape) =
     Some (Inl IndexError, snd (Area_init u_shape HOUSE None (process u_shape))) \<and>
   sub_areas (snd (Area_init u_shape HOUSE None (process u_shape))) 0 = [] \<and>
   members (snd (Area_init u_shape HOUSE None (process u_shape))) = [0, 1]"
proof (intro conjI)
  have "\<not> is_ccw plane (polygon (process rectangle_cw) 0)"
    by (simp add: process_eq polygon_def plane_def rectangle_cw_def cross_def)
  then show "split plane 0 (1 / 2) 90 (Some True) None (process rectangle_cw) =
               Some (Inl AttributeError, process rectangle_cw)"
    by (simp add: split_not_ccw)
  show "sub_areas (process rectangle_cw) 0 = []"
    by (simp add: process_eq sub_areas_def)
  show "split plane 0 (999 / 1000) 90 (Some True) None (process u_shape) =
          Some (Inl IndexError, snd (Area_init u_shape HOUSE None (process u_shape)))"
    by (rule u_shape_small_gap)
  show "sub_areas (snd (Area_init u_shape HOUSE None (process u_shape))) 0 = []"
    by (simp add: Area_init_None process_eq sub_areas_def)
  show "members (snd (Area_init u_shape HOUSE None (process u_shape))) = [0, 1]"
    by (simp add: Area_init_None process_eq)
qed

text \<open>Three constructor calls in a new process: the ids are 1, 2, 3.\<close>

theorem constructions_ids_increase_witness:
  "map (identity (snd (constructions [(u_shape, HOUSE, None), (rectangle_cw, GARDEN, None), ([], FIELD, Some 0)] Area_class)))
     (fst (constructions [(u_shape, HOUSE, None), (rectangle_cw, GARDEN, None), ([], FIELD, Some 0)] Area_class)) = [1, 2, 3] \<and>
   sorted_wrt (<) [1, 2, 3 :: int] \<and> distinct [1, 2, 3 :: int]"
  using constructions_ids_increase[OF Area_class_ids_ok surjective_pairing,
          of "[(u_shape, HOUSE, None), (rectangle_cw, GARDEN, None), ([], FIELD, Some 0)]"]
  by (simp add: Area_init_None Area_init_Some Area_class_def identity_def)


end
